theory Spec2Isabelle
  imports Main "HOL-Library.Sublist" "HOL-Library.Word"
begin

chapter \<open>Content collections: entry validation, config loading and the config observable\<close>

text \<open>
  A shallow embedding of \<open>packages/astro/src/content/utils.ts\<close>. Library collaborators
  (the schema validator, the front-matter parser, the module-execution server) are
  parameters of the functions that call them; every \<open>throw\<close> of the source is a value of
  the result type.
\<close>

section \<open>Strings as the locator uses them\<close>

text \<open>
  A string of the source is a sequence of UTF-16 code units, which is what its string
  operations index and compare: a list of 16-bit words. \<open>lit\<close> gives the code units of
  an ASCII literal. The three library operations that \<open>getFrontmatterErrorLine\<close> calls
  are written out: \<open>String.prototype.indexOf\<close> (first occurrence, \<open>-1\<close> when there is
  none), \<open>String.prototype.substring\<close> (both bounds clamped to the string, swapped when
  out of order) and \<open>String.prototype.split\<close> with a one-unit separator.
\<close>

type_synonym code_unit = "16 word"

type_synonym js_string = "code_unit list"

definition lit :: "string \<Rightarrow> js_string" where
  "lit s = map (\<lambda>c. of_nat (of_char c)) s"

definition newline :: code_unit where
  "newline = 0x0A"

fun indexOf :: "js_string \<Rightarrow> js_string \<Rightarrow> int" where
  "indexOf [] p = (if p = [] then 0 else - 1)"
| "indexOf (c # cs) p =
     (if prefix p (c # cs) then 0
      else (let r = indexOf cs p in if r = - 1 then - 1 else r + 1))"

definition substring :: "js_string \<Rightarrow> int \<Rightarrow> int \<Rightarrow> js_string" where
  "substring s indexStart indexEnd =
     (let len = int (length s);
          a = min (max indexStart 0) len;
          b = min (max indexEnd 0) len
      in take (nat (max a b - min a b)) (drop (nat (min a b)) s))"

fun js_split :: "code_unit \<Rightarrow> js_string \<Rightarrow> js_string list" where
  "js_split sep [] = [[]]"
| "js_split sep (c # cs) =
     (if c = sep then [] # js_split sep cs
      else (case js_split sep cs of [] \<Rightarrow> [[c]] | l # ls \<Rightarrow> (c # l) # ls))"

subsection \<open>The error-line locator (utils.ts, lines 105-112)\<close>

definition getFrontmatterErrorLine :: "js_string \<Rightarrow> js_string \<Rightarrow> int" where
  "getFrontmatterErrorLine rawFrontmatter frontmatterKey =
     (let indexOfFrontmatterKey = indexOf rawFrontmatter (newline # frontmatterKey)
      in if indexOfFrontmatterKey = - 1 then 0
         else (let frontmatterBeforeKey = substring rawFrontmatter 0 (indexOfFrontmatterKey + 1);
                   numNewlinesBeforeKey = int (length (js_split newline frontmatterBeforeKey))
               in numNewlinesBeforeKey))"

text \<open>
  The key is found "at a line start" at offset \<open>i\<close> when the character at \<open>i\<close> is a
  newline and the key's text follows it immediately.
\<close>

definition key_starts_line_at :: "js_string \<Rightarrow> js_string \<Rightarrow> nat \<Rightarrow> bool" where
  "key_starts_line_at raw key i =
     (i < length raw \<and> raw ! i = newline \<and> prefix key (drop (Suc i) raw))"

text \<open>Two raw front-matter texts used as examples: the spec's, and one whose first line
  begins with the key.\<close>

definition spec_example_frontmatter :: js_string where
  "spec_example_frontmatter = lit ''---\<newline>title: 5\<newline>body: x\<newline>---''"

definition first_line_frontmatter :: js_string where
  "first_line_frontmatter = lit ''title: 5\<newline>body: x''"


section \<open>Entries and collection configs (utils.ts, lines 11-42)\<close>

record entry_internal =
  internal_rawData :: js_string
  internal_filePath :: js_string

text \<open>The type \<open>Entry\<close>; \<open>data\<close> is \<open>any\<close> in the source and a type parameter here.\<close>

record 'd entry =
  entry_id :: js_string
  entry_collection :: js_string
  entry_slug :: js_string
  entry_data :: 'd
  entry_body :: js_string
  entry_internal :: entry_internal

text \<open>
  The argument object of a collection's \<open>slug\<close> function, and what a call of it yields.
  The declared return type is \<open>string | Promise<string>\<close>; \<open>Nullish\<close> stands for
  \<open>undefined\<close> and \<open>null\<close>, which the \<open>??\<close> of \<open>getEntrySlug\<close> tests for, and is also
  what \<open>?.\<close> yields when there is no function. A promise is given by how it settles:
  \<open>Inl\<close> a rejection, \<open>Inr\<close> the string it is fulfilled with.
\<close>

record 'd slug_args =
  arg_id :: js_string
  arg_data :: 'd
  defaultSlug :: js_string
  arg_collection :: js_string
  arg_body :: js_string

datatype 'x slug_value = Nullish | Text js_string | Promise "'x + js_string"

datatype ('x, 'a) call = Call_threw 'x | Call_returned 'a

text \<open>
  \<open>schema\<close> is declared \<open>z.any().optional()\<close>: absent, some other falsy value, or a
  truthy value that \<open>getEntryData\<close> hands to \<open>z.object\<close> as the shape.
\<close>

datatype 's schema_field = Schema_undefined | Schema_falsy | Schema_shape 's

record ('s, 'd, 'x) collection_config =
  schema :: "'s schema_field"
  slug :: "('d slug_args \<Rightarrow> ('x, 'x slug_value) call) option"

subsection \<open>\<open>getEntrySlug\<close> (lines 49-59)\<close>

definition nullish_coalesce :: "'x slug_value \<Rightarrow> 'x slug_value \<Rightarrow> 'x slug_value" where
  "nullish_coalesce a b = (case a of Nullish \<Rightarrow> b | _ \<Rightarrow> a)"

text \<open>
  What the promise of an \<open>async\<close> function settles to when its body returns \<open>v\<close>: a
  returned promise is adopted. \<open>Inr None\<close> is fulfilment with a nullish value.
\<close>

fun async_return :: "'x slug_value \<Rightarrow> 'x + js_string option" where
  "async_return Nullish = Inr None"
| "async_return (Text s) = Inr (Some s)"
| "async_return (Promise (Inl x)) = Inl x"
| "async_return (Promise (Inr s)) = Inr (Some s)"

definition slug_args_of :: "'d entry \<Rightarrow> 'd slug_args" where
  "slug_args_of entry =
     \<lparr>arg_id = entry_id entry, arg_data = entry_data entry, defaultSlug = entry_slug entry,
      arg_collection = entry_collection entry, arg_body = entry_body entry\<rparr>"

definition getEntrySlug ::
  "'d entry \<Rightarrow> ('s, 'd, 'x) collection_config \<Rightarrow> 'x + js_string option" where
  "getEntrySlug entry collectionConfig =
     (case (case slug collectionConfig of
              None \<Rightarrow> Call_returned Nullish
            | Some f \<Rightarrow> f (slug_args_of entry)) of
        Call_threw x \<Rightarrow> Inl x
      | Call_returned v \<Rightarrow> async_return (nullish_coalesce v (Text (entry_slug entry))))"

subsection \<open>The validator's issues and the error map (lines 91-103)\<close>

text \<open>
  A path segment is a property name or an array index (\<open>(string | number)[]\<close>). An issue
  carries its code, its path and, for the code \<open>invalid_type\<close>, the names of the expected
  and of the received type; \<open>issue_message\<close> is the message the validator stored after
  applying the error maps.
\<close>

datatype path_segment = Key js_string | Index nat

record zod_issue =
  code :: js_string
  path :: "path_segment list"
  expected :: js_string
  received :: js_string
  issue_message :: js_string

record zod_error =
  errors :: "zod_issue list"

record error_map_ctx =
  defaultError :: js_string

definition dquote :: code_unit where
  "dquote = 0x22"

definition backslash :: code_unit where
  "backslash = 0x5C"

definition digit_char :: "nat \<Rightarrow> code_unit" where
  "digit_char d = lit ''0123456789abcdef'' ! d"

text \<open>\<open>String(n)\<close> of an array index: its decimal digits.\<close>

function number_to_string :: "nat \<Rightarrow> js_string" where
  "number_to_string n =
     (if n < 10 then [digit_char n]
      else number_to_string (n div 10) @ [digit_char (n mod 10)])"
  by pat_completeness auto
termination
  by (relation "measure id") auto

declare number_to_string.simps [simp del]

fun segment_to_string :: "path_segment \<Rightarrow> js_string" where
  "segment_to_string (Key k) = k"
| "segment_to_string (Index n) = number_to_string n"

text \<open>\<open>Array.prototype.join\<close> on the strings of the elements.\<close>

fun join :: "js_string \<Rightarrow> js_string list \<Rightarrow> js_string" where
  "join sep [] = []"
| "join sep [x] = x"
| "join sep (x # y # ys) = x @ sep @ join sep (y # ys)"

definition flattenPath :: "path_segment list \<Rightarrow> js_string" where
  "flattenPath p = join (lit ''.'') (map segment_to_string p)"

text \<open>
  \<open>JSON.stringify\<close> of a string (\<open>QuoteJSONString\<close>): the string in double quotes, read
  code point by code point. A leading surrogate followed by a trailing surrogate is one
  code point and is copied; the double quote, the backslash and the five control
  characters with a short escape get their two-unit escape; every other code unit below
  \<open>0x20\<close> and every surrogate that is not part of a pair is written \<open>\uXXXX\<close> with four
  lower-case hexadecimal digits; every other code unit is copied.
\<close>

definition is_leading_surrogate :: "code_unit \<Rightarrow> bool" where
  "is_leading_surrogate c = (0xD800 \<le> c \<and> c \<le> 0xDBFF)"

definition is_trailing_surrogate :: "code_unit \<Rightarrow> bool" where
  "is_trailing_surrogate c = (0xDC00 \<le> c \<and> c \<le> 0xDFFF)"

definition unicode_escape :: "code_unit \<Rightarrow> js_string" where
  "unicode_escape c =
     [backslash, 0x75,
      digit_char (unat c div 4096), digit_char (unat c div 256 mod 16),
      digit_char (unat c div 16 mod 16), digit_char (unat c mod 16)]"

definition quote_json_unit :: "code_unit \<Rightarrow> js_string" where
  "quote_json_unit c =
     (if c = 0x08 then [backslash, 0x62]
      else if c = 0x09 then [backslash, 0x74]
      else if c = 0x0A then [backslash, 0x6E]
      else if c = 0x0C then [backslash, 0x66]
      else if c = 0x0D then [backslash, 0x72]
      else if c = dquote then [backslash, dquote]
      else if c = backslash then [backslash, backslash]
      else if c < 0x20 \<or> is_leading_surrogate c \<or> is_trailing_surrogate c
        then unicode_escape c
      else [c])"

fun quote_json_units :: "js_string \<Rightarrow> js_string" where
  "quote_json_units [] = []"
| "quote_json_units [c] = quote_json_unit c"
| "quote_json_units (c # d # ds) =
     (if is_leading_surrogate c \<and> is_trailing_surrogate d then c # d # quote_json_units ds
      else quote_json_unit c @ quote_json_units (d # ds))"

definition JSON_stringify :: "js_string \<Rightarrow> js_string" where
  "JSON_stringify s = dquote # quote_json_units s @ [dquote]"

text \<open>The error map returns \<open>{ message }\<close>; the model returns the message.\<close>

definition errorMap :: "zod_issue \<Rightarrow> error_map_ctx \<Rightarrow> js_string" where
  "errorMap error ctx =
     (if code error = lit ''invalid_type'' then
        (let badKeyPath = JSON_stringify (flattenPath (path error))
         in if received error = lit ''undefined'' then badKeyPath @ lit '' is required.''
            else badKeyPath @ lit '' should be '' @ expected error @ lit '', not '' @
                 received error @ lit ''.'')
      else defaultError ctx)"

text \<open>
  A string that \<open>JSON.stringify\<close> copies unchanged between the quotes: it has no double
  quote, no backslash, no code unit below \<open>0x20\<close>, and no surrogate outside a pair.
\<close>

definition json_plain_unit :: "code_unit \<Rightarrow> bool" where
  "json_plain_unit c =
     (c \<noteq> dquote \<and> c \<noteq> backslash \<and> \<not> c < 0x20 \<and>
      \<not> is_leading_surrogate c \<and> \<not> is_trailing_surrogate c)"

fun json_plain :: "js_string \<Rightarrow> bool" where
  "json_plain [] = True"
| "json_plain [c] = json_plain_unit c"
| "json_plain (c # d # ds) =
     (if is_leading_surrogate c \<and> is_trailing_surrogate d then json_plain ds
      else json_plain_unit c \<and> json_plain (d # ds))"

subsection \<open>\<open>getEntryData\<close> (lines 61-89)\<close>

text \<open>
  \<open>z.object(schema).safeParseAsync(data, { errorMap })\<close> is the parameter \<open>safeParseAsync\<close>:
  it succeeds with the parsed data, fails with a \<open>ZodError\<close>, or rejects with what a
  user-written transform threw. \<open>AstroErrorData.MarkdownContentSchemaValidationError\<close> is
  declared outside this file; its \<open>message\<close> function is the parameter \<open>errorMessage\<close>, and
  the other properties spread from it into the error are not modelled.
\<close>

datatype ('d, 'x) safe_parse = Parse_success 'd | Parse_failure zod_error | Parse_rejected 'x

record error_location =
  loc_file :: js_string
  loc_line :: int
  loc_column :: int

record astro_error =
  message :: js_string
  location :: error_location

datatype 'x thrown = AstroError astro_error | TypeError | Rethrown 'x

text \<open>\<open>String(path[0])\<close>: reading index 0 of an empty path gives \<open>undefined\<close>.\<close>

fun first_segment_string :: "path_segment list \<Rightarrow> js_string" where
  "first_segment_string [] = lit ''undefined''"
| "first_segment_string (seg # _) = segment_to_string seg"

definition getEntryData ::
  "('s \<Rightarrow> 'd \<Rightarrow> (zod_issue \<Rightarrow> error_map_ctx \<Rightarrow> js_string) \<Rightarrow> ('d, 'x) safe_parse) \<Rightarrow>
   (js_string \<Rightarrow> js_string \<Rightarrow> zod_error \<Rightarrow> js_string) \<Rightarrow>
   'd entry \<Rightarrow> ('s, 'd, 'y) collection_config \<Rightarrow> 'x thrown + 'd" where
  "getEntryData safeParseAsync errorMessage entry collectionConfig =
     (case schema collectionConfig of
        Schema_shape shape \<Rightarrow>
          (case safeParseAsync shape (entry_data entry) errorMap of
             Parse_success parsed_data \<Rightarrow> Inr parsed_data
           | Parse_rejected x \<Rightarrow> Inl (Rethrown x)
           | Parse_failure parsed_error \<Rightarrow>
               (case errors parsed_error of
                  [] \<Rightarrow> Inl TypeError
                | first_issue # _ \<Rightarrow>
                    Inl (AstroError
                      \<lparr>message =
                         errorMessage (entry_collection entry) (entry_id entry) parsed_error,
                       location =
                         \<lparr>loc_file = internal_filePath (entry_internal entry),
                          loc_line = getFrontmatterErrorLine (internal_rawData (entry_internal entry))
                                   (first_segment_string (path first_issue)),
                          loc_column = 0\<rparr>\<rparr>)))
      | _ \<Rightarrow> Inr (entry_data entry))"

text \<open>
  Issues used as examples: the ones the validator reports for \<open>data = {}\<close> and for
  \<open>data = {title: 5}\<close> against a shape requiring \<open>title: string\<close>; one for a nested
  field, with the path \<open>author.links.12.url\<close>; one for a missing element \<open>0\<close> of a
  field whose name \<open>a"b\<close> contains a double quote; one for a field whose name holds a
  backslash, a tab, the control character \<open>0x1F\<close>, a leading surrogate on its own, the
  letter \<open>a\<close> and a surrogate pair; and one with another code.
\<close>

definition title_missing_issue :: zod_issue where
  "title_missing_issue =
     \<lparr>code = lit ''invalid_type'', path = [Key (lit ''title'')], expected = lit ''string'',
      received = lit ''undefined'', issue_message = []\<rparr>"

definition title_number_issue :: zod_issue where
  "title_number_issue =
     \<lparr>code = lit ''invalid_type'', path = [Key (lit ''title'')], expected = lit ''string'',
      received = lit ''number'', issue_message = []\<rparr>"

definition nested_issue :: zod_issue where
  "nested_issue =
     \<lparr>code = lit ''invalid_type'',
      path = [Key (lit ''author''), Key (lit ''links''), Index 12, Key (lit ''url'')],
      expected = lit ''string'', received = lit ''number'', issue_message = []\<rparr>"

definition quoted_key_issue :: zod_issue where
  "quoted_key_issue =
     \<lparr>code = lit ''invalid_type'', path = [Key (lit ''a'' @ [dquote] @ lit ''b''), Index 0],
      expected = lit ''string'', received = lit ''undefined'', issue_message = []\<rparr>"

definition escaped_key_issue :: zod_issue where
  "escaped_key_issue =
     \<lparr>code = lit ''invalid_type'',
      path = [Key [backslash, 0x09, 0x1F, 0xD83D, 0x61, 0xD83D, 0xDE00]],
      expected = lit ''string'', received = lit ''undefined'', issue_message = []\<rparr>"

definition too_small_issue :: zod_issue where
  "too_small_issue =
     \<lparr>code = lit ''too_small'', path = [Key (lit ''title'')], expected = [], received = [],
      issue_message = []\<rparr>"

text \<open>
  An entry, two collection configs and stand-ins for the two collaborators of
  \<open>getEntryData\<close>, used as examples: the validator reports \<open>title_number_issue\<close> with
  the message the error map gives it, and the message function lists the collection, the
  entry and the issues' messages.
\<close>

definition example_entry :: "string entry" where
  "example_entry =
     \<lparr>entry_id = lit ''post.md'', entry_collection = lit ''blog'', entry_slug = lit ''post'',
      entry_data = ''{title: 5}'', entry_body = lit ''Hello'',
      entry_internal = \<lparr>internal_rawData = spec_example_frontmatter,
                         internal_filePath = lit ''/site/blog/post.md''\<rparr>\<rparr>"

definition example_validator ::
  "unit \<Rightarrow> string \<Rightarrow> (zod_issue \<Rightarrow> error_map_ctx \<Rightarrow> js_string) \<Rightarrow> (string, unit) safe_parse" where
  "example_validator shape d em =
     Parse_failure \<lparr>errors =
       [title_number_issue\<lparr>issue_message :=
          em title_number_issue \<lparr>defaultError = lit ''Expected string, received number''\<rparr>\<rparr>]\<rparr>"

definition example_errorMessage :: "js_string \<Rightarrow> js_string \<Rightarrow> zod_error \<Rightarrow> js_string" where
  "example_errorMessage collection entryId err =
     join [newline] ((collection @ lit '' / '' @ entryId) # map issue_message (errors err))"

definition config_with_schema :: "(unit, string, unit) collection_config" where
  "config_with_schema = \<lparr>schema = Schema_shape (), slug = None\<rparr>"

definition config_without_schema :: "(unit, string, unit) collection_config" where
  "config_without_schema = \<lparr>schema = Schema_undefined, slug = None\<rparr>"

definition config_with_async_slug :: "(unit, string, unit) collection_config" where
  "config_with_async_slug =
     \<lparr>schema = Schema_undefined,
      slug = Some (\<lambda>a. Call_returned
               (Promise (Inr (arg_collection a @ lit ''/'' @ defaultSlug a))))\<rparr>"


section \<open>\<open>parseFrontmatter\<close> (utils.ts, lines 118-135)\<close>

text \<open>
  The front-matter library \<open>matter\<close> is a parameter: it returns the parsed file or throws
  an exception object. Of such an object the function reads \<open>name\<close>, \<open>reason\<close> and \<open>mark\<close>
  and writes \<open>id\<close>, \<open>loc\<close> and \<open>message\<close>; the source assigns to the caught object itself
  (\<open>err\<close> and \<open>e\<close> are one object), so the assignments are successive updates of one
  record, and \<open>e.id\<close> read for \<open>loc.file\<close> is the \<open>id\<close> just written. A property that is
  not set is \<open>None\<close>; reading \<open>e.mark.line\<close> without a mark throws a \<open>TypeError\<close>.
  \<open>clearCache\<close> only resets the library's memoisation and has no part in the result of a
  fresh parse.
\<close>

record yaml_mark =
  mark_line :: int
  mark_column :: int

record exception_loc =
  exn_loc_file :: "js_string option"
  exn_loc_line :: int
  exn_loc_column :: int

record js_exception =
  exn_name :: js_string
  exn_message :: js_string
  exn_reason :: js_string
  exn_mark :: "yaml_mark option"
  exn_id :: "js_string option"
  exn_loc :: "exception_loc option"

datatype frontmatter_thrown = Thrown js_exception | Thrown_TypeError

definition parseFrontmatter ::
  "(js_string \<Rightarrow> js_exception + 'r) \<Rightarrow> js_string \<Rightarrow> js_string \<Rightarrow> frontmatter_thrown + 'r" where
  "parseFrontmatter matter fileContents filePath =
     (case matter fileContents of
        Inr parsed \<Rightarrow> Inr parsed
      | Inl e \<Rightarrow>
          (if exn_name e = lit ''YAMLException'' then
             (let err1 = e\<lparr>exn_id := Some filePath\<rparr>
              in case exn_mark err1 of
                   None \<Rightarrow> Inl Thrown_TypeError
                 | Some mark \<Rightarrow>
                     (let err2 = err1\<lparr>exn_loc := Some \<lparr>exn_loc_file = exn_id err1,
                                                        exn_loc_line = mark_line mark + 1,
                                                        exn_loc_column = mark_column mark\<rparr>\<rparr>;
                          err3 = err2\<lparr>exn_message := exn_reason err2\<rparr>
                      in Inl (Thrown err3)))
           else Inl (Thrown e)))"

text \<open>
  A stand-in for the library on two file texts. For a block with a badly indented mapping
  entry the parser throws a \<open>YAMLException\<close> that carries the mark of the error. For a
  block that holds two YAML documents (the second after the document end marker \<open>...\<close>)
  the parser throws the \<open>YAMLException\<close> \<open>expected a single document in the stream, but
  found more\<close>, which is created without a mark. Every other text is taken as parsed.
\<close>

definition bad_indentation_text :: js_string where
  "bad_indentation_text = lit ''---\<newline>a:\<newline>  b: 1\<newline> c: 2\<newline>---''"

definition two_documents_text :: js_string where
  "two_documents_text = lit ''---\<newline>a: 1\<newline>...\<newline>b: 2\<newline>---''"

definition bad_indentation :: js_exception where
  "bad_indentation =
     \<lparr>exn_name = lit ''YAMLException'',
      exn_message = lit ''bad indentation of a mapping entry at line 4, column 2'',
      exn_reason = lit ''bad indentation of a mapping entry'',
      exn_mark = Some \<lparr>mark_line = 3, mark_column = 1\<rparr>,
      exn_id = None, exn_loc = None\<rparr>"

definition single_document_expected :: js_exception where
  "single_document_expected =
     \<lparr>exn_name = lit ''YAMLException'',
      exn_message = lit ''expected a single document in the stream, but found more'',
      exn_reason = lit ''expected a single document in the stream, but found more'',
      exn_mark = None, exn_id = None, exn_loc = None\<rparr>"

definition example_matter :: "js_string \<Rightarrow> js_exception + unit" where
  "example_matter fileContents =
     (if fileContents = bad_indentation_text then Inl bad_indentation
      else if fileContents = two_documents_text then Inl single_document_expected
      else Inr ())"


section \<open>Content paths and the config loader (utils.ts, lines 137-178 and 217-250)\<close>

text \<open>
  URLs are values of a type parameter; the operations of \<open>node:url\<close> and of \<open>URL\<close> that the
  two functions use are the fields of \<open>url_lib\<close>. \<open>glob_sync cwd\<close> is the list that
  \<open>glob.sync('content.config.{ts,js,mjs}', {cwd, absolute: true, fs})\<close> returns.
\<close>

record 'u url_lib =
  new_URL :: "js_string \<Rightarrow> 'u \<Rightarrow> 'u"
  fileURLToPath :: "'u \<Rightarrow> js_string"
  pathToFileURL :: "js_string \<Rightarrow> 'u"
  pathname :: "'u \<Rightarrow> js_string"
  import_meta_url :: 'u

record 'u content_paths =
  contentDir :: 'u
  cacheDir :: 'u
  generatedInputDir :: 'u
  config :: "'u option"

definition getContentDir :: "'u url_lib \<Rightarrow> 'u \<Rightarrow> 'u" where
  "getContentDir urls srcDir = new_URL urls (lit ''./content/'') srcDir"

text \<open>
  Index \<open>0\<close> of an empty array is \<open>undefined\<close>; \<open>configPath ? ... : undefined\<close> tests the
  path for truthiness, and the empty string is falsy.
\<close>

definition getContentPaths ::
  "'u url_lib \<Rightarrow> (js_string \<Rightarrow> js_string list) \<Rightarrow> 'u \<Rightarrow> 'u \<Rightarrow> 'u content_paths" where
  "getContentPaths urls glob_sync srcDir rootDir =
     (let configPath = (case glob_sync (fileURLToPath urls rootDir) of
                          [] \<Rightarrow> None
                        | p # _ \<Rightarrow> Some p)
      in \<lparr>contentDir = getContentDir urls srcDir,
          cacheDir = rootDir,
          generatedInputDir =
            new_URL urls (lit ''../../src/content/template/'') (import_meta_url urls),
          config = (case configPath of
                      None \<Rightarrow> None
                    | Some p \<Rightarrow> if p \<noteq> [] then Some (pathToFileURL urls p) else None)\<rparr>)"

text \<open>\<open>settings.config.srcDir\<close> and \<open>settings.config.root\<close>.\<close>

record 'u settings =
  srcDir :: 'u
  root :: 'u

text \<open>
  The module-execution server. \<open>createServer root\<close> is \<open>None\<close> when the promise of
  \<open>createServer\<close> is fulfilled and \<open>Some x\<close> when it is rejected with \<open>x\<close>;
  \<open>ssrLoadModule\<close> gives the loaded module or what it threw; \<open>close n\<close> is how the call
  number \<open>n\<close> of \<open>close\<close> ends (\<open>None\<close>: the server is closed). The state records whether a
  server was created, whether it is still open, and how often \<open>close\<close> was called; a call
  of \<open>close\<close> that rejects leaves the server open.
\<close>

record ('m, 'x) server_lib =
  createServer :: "js_string \<Rightarrow> 'x option"
  ssrLoadModule :: "js_string \<Rightarrow> 'x + 'm"
  close :: "nat \<Rightarrow> 'x option"

record server_state =
  server_created :: bool
  server_open :: bool
  close_calls :: nat

definition no_server :: server_state where
  "no_server = \<lparr>server_created = False, server_open = False, close_calls = 0\<rparr>"

definition close_server :: "('m, 'x) server_lib \<Rightarrow> server_state \<Rightarrow> 'x option \<times> server_state" where
  "close_server server st =
     (let r = close server (close_calls st)
      in (r, st\<lparr>server_open := (server_open st \<and> r \<noteq> None),
                close_calls := Suc (close_calls st)\<rparr>))"

text \<open>
  What \<open>loadContentConfig\<close> returns: the validated config, a \<open>NotFoundError\<close> or a
  \<open>ZodParseError\<close> with its message. \<open>contentConfigParser.safeParse\<close> is the parameter
  \<open>safeParse\<close>: \<open>Inl\<close> the validation error's message, \<open>Inr\<close> the validated config. The
  result of the model is the outcome (\<open>Inl\<close>: the function throws) and the final state of
  the server.
\<close>

datatype 'c load_result = Content_config 'c | NotFoundError | ZodParseError js_string

definition catch_block ::
  "('m, 'x) server_lib \<Rightarrow> server_state \<Rightarrow> ('x + 'c load_result) \<times> server_state" where
  "catch_block server st =
     (case close_server server st of
        (None, st') \<Rightarrow> (Inr NotFoundError, st')
      | (Some x, st') \<Rightarrow> (Inl x, st'))"

definition loadContentConfig ::
  "'u url_lib \<Rightarrow> (js_string \<Rightarrow> js_string list) \<Rightarrow> ('m, 'x) server_lib \<Rightarrow>
   ('m \<Rightarrow> js_string + 'c) \<Rightarrow>
   'u settings \<Rightarrow> ('x + 'c load_result) \<times> server_state" where
  "loadContentConfig urls glob_sync server safeParse settings =
     (let contentPaths = getContentPaths urls glob_sync (srcDir settings) (root settings)
      in case config contentPaths of
           None \<Rightarrow> (Inr NotFoundError, no_server)
         | Some configURL \<Rightarrow>
             (case createServer server (fileURLToPath urls (root settings)) of
                Some x \<Rightarrow> (Inl x, no_server)
              | None \<Rightarrow>
                  (let st1 = no_server\<lparr>server_created := True, server_open := True\<rparr>
                   in case ssrLoadModule server (pathname urls configURL) of
                        Inl x \<Rightarrow> catch_block server st1
                      | Inr unparsedConfig \<Rightarrow>
                          (case close_server server st1 of
                             (Some x, st2) \<Rightarrow> catch_block server st2
                           | (None, st2) \<Rightarrow>
                               (case safeParse unparsedConfig of
                                  Inr config_data \<Rightarrow> (Inr (Content_config config_data), st2)
                                | Inl error_message \<Rightarrow>
                                    (Inr (ZodParseError error_message), st2))))))"

text \<open>
  Stand-ins for examples: URLs as strings, a project whose root holds \<open>content.config.ts\<close>,
  a parser that accepts the module \<open>''ok''\<close> only, and five servers: one that works, one whose
  module execution throws, one that cannot be created, one whose first \<open>close\<close> rejects,
  and one whose every \<open>close\<close> rejects.
\<close>

definition string_urls :: "js_string url_lib" where
  "string_urls =
     \<lparr>new_URL = (\<lambda>rel base. base @ rel),
      fileURLToPath = drop 7,
      pathToFileURL = (\<lambda>p. lit ''file://'' @ p),
      pathname = drop 7,
      import_meta_url = lit ''file:///astro/dist/content/utils.js''\<rparr>"

definition example_settings :: "js_string settings" where
  "example_settings = \<lparr>srcDir = lit ''file:///site/src/'', root = lit ''file:///site/''\<rparr>"

definition glob_found :: "js_string \<Rightarrow> js_string list" where
  "glob_found cwd = [cwd @ lit ''content.config.ts'']"

definition glob_nothing :: "js_string \<Rightarrow> js_string list" where
  "glob_nothing cwd = []"

definition example_safeParse :: "string \<Rightarrow> js_string + string" where
  "example_safeParse m = (if m = ''ok'' then Inr ''collections'' else Inl (lit ''Required''))"

definition working_server :: "(string, string) server_lib" where
  "working_server =
     \<lparr>createServer = (\<lambda>r. None), ssrLoadModule = (\<lambda>p. Inr ''ok''), close = (\<lambda>n. None)\<rparr>"

definition throwing_module_server :: "(string, string) server_lib" where
  "throwing_module_server =
     \<lparr>createServer = (\<lambda>r. None), ssrLoadModule = (\<lambda>p. Inl ''SyntaxError''),
      close = (\<lambda>n. None)\<rparr>"

definition uncreatable_server :: "(string, string) server_lib" where
  "uncreatable_server =
     \<lparr>createServer = (\<lambda>r. Some ''failed to resolve config''),
      ssrLoadModule = (\<lambda>p. Inr ''ok''), close = (\<lambda>n. None)\<rparr>"

definition close_rejects_once_server :: "(string, string) server_lib" where
  "close_rejects_once_server =
     \<lparr>createServer = (\<lambda>r. None), ssrLoadModule = (\<lambda>p. Inr ''ok''),
      close = (\<lambda>n. if n = 0 then Some ''close failed'' else None)\<rparr>"

definition close_always_rejects_server :: "(string, string) server_lib" where
  "close_always_rejects_server =
     \<lparr>createServer = (\<lambda>r. None), ssrLoadModule = (\<lambda>p. Inl ''SyntaxError''),
      close = (\<lambda>n. Some ''close failed'')\<rparr>"


section \<open>The config observable (utils.ts, lines 180-215)\<close>

datatype config_error = Error_NotFound | Error_ZodParse js_string

datatype 'c content_ctx = Status_loading | Status_loaded 'c | Status_error config_error


record 'c observable =
  obs_ctx :: "'c content_ctx"
  subscribers :: "nat option list"
  notifications :: "(nat \<times> 'c content_ctx) list"



definition set_add :: "nat \<Rightarrow> nat option list \<Rightarrow> nat option list" where
  "set_add fn entries = (if Some fn \<in> set entries then entries else entries @ [Some fn])"

definition set_delete :: "nat \<Rightarrow> nat option list \<Rightarrow> nat option list" where
  "set_delete fn entries = map (\<lambda>e. if e = Some fn then None else e) entries"

definition subscribe :: "nat \<Rightarrow> 'c observable \<Rightarrow> 'c observable" where
  "subscribe fn st = st\<lparr>subscribers := set_add fn (subscribers st)\<rparr>"

definition unsubscribe :: "nat \<Rightarrow> 'c observable \<Rightarrow> 'c observable" where
  "unsubscribe fn st = st\<lparr>subscribers := set_delete fn (subscribers st)\<rparr>"




text \<open>The functions registered in a \<open>Set\<close>, in registration order.\<close>

fun live :: "nat option list \<Rightarrow> nat list" where
  "live [] = []"
| "live (None # es) = live es"
| "live (Some fn # es) = fn # live es"

definition registered :: "'c observable \<Rightarrow> nat list" where
  "registered st = live (subscribers st)"






text \<open>
  Emptying the entries of a set of functions, the calls of \<open>set\<close> for a list of contexts
  one after the other (ended by the first that does not return), and the notifications
  that a run has added to the record.
\<close>

definition delete_all :: "nat set \<Rightarrow> nat option list \<Rightarrow> nat option list" where
  "delete_all targets entries =
     map (\<lambda>e. case e of None \<Rightarrow> None | Some fn \<Rightarrow> if fn \<in> targets then None else Some fn) entries"










lemma indexOf_lower: "- 1 \<le> indexOf s p"
  by (induction s) (auto simp: Let_def)

lemma indexOf_absent: "(indexOf s p = - 1) = (\<forall>i\<le>length s. \<not> prefix p (drop i s))"
proof (induction s)
  case Nil
  then show ?case by auto
next
  case (Cons c cs)
  have low: "- 1 \<le> indexOf cs p" by (rule indexOf_lower)
  show ?case
  proof (cases "prefix p (c # cs)")
    case True
    then have "prefix p (drop 0 (c # cs))" by simp
    with True show ?thesis by fastforce
  next
    case False
    have "(\<forall>i\<le>length (c # cs). \<not> prefix p (drop i (c # cs))) =
          (\<forall>i\<le>length cs. \<not> prefix p (drop i cs))"
    proof
      assume a: "\<forall>i\<le>length (c # cs). \<not> prefix p (drop i (c # cs))"
      show "\<forall>i\<le>length cs. \<not> prefix p (drop i cs)"
      proof (intro allI impI)
        fix i assume "i \<le> length cs"
        then have "\<not> prefix p (drop (Suc i) (c # cs))" using a by (metis Suc_le_mono length_Cons)
        then show "\<not> prefix p (drop i cs)" by simp
      qed
    next
      assume a: "\<forall>i\<le>length cs. \<not> prefix p (drop i cs)"
      show "\<forall>i\<le>length (c # cs). \<not> prefix p (drop i (c # cs))"
      proof (intro allI impI)
        fix i assume i: "i \<le> length (c # cs)"
        show "\<not> prefix p (drop i (c # cs))"
        proof (cases i)
          case 0
          with False show ?thesis by simp
        next
          case (Suc j)
          with i a show ?thesis by simp
        qed
      qed
    qed
    with False Cons.IH low show ?thesis by (auto simp: Let_def)
  qed
qed

lemma indexOf_first:
  "i \<le> length s \<Longrightarrow> prefix p (drop i s) \<Longrightarrow> (\<forall>j<i. \<not> prefix p (drop j s)) \<Longrightarrow>
   indexOf s p = int i"
proof (induction s arbitrary: i)
  case Nil
  then show ?case by auto
next
  case (Cons c cs)
  show ?case
  proof (cases i)
    case 0
    with Cons.prems show ?thesis by simp
  next
    case (Suc k)
    from Cons.prems(3) Suc have notpre: "\<not> prefix p (c # cs)"
      by (metis drop0 zero_less_Suc)
    have k: "k \<le> length cs" using Cons.prems(1) Suc by simp
    have pk: "prefix p (drop k cs)" using Cons.prems(2) Suc by simp
    have nk: "\<forall>j<k. \<not> prefix p (drop j cs)"
    proof (intro allI impI)
      fix j assume "j < k"
      then have "Suc j < i" using Suc by simp
      then have "\<not> prefix p (drop (Suc j) (c # cs))" using Cons.prems(3) by blast
      then show "\<not> prefix p (drop j cs)" by simp
    qed
    have "indexOf cs p = int k" using Cons.IH [OF k pk nk] .
    with notpre Suc show ?thesis by (simp add: Let_def)
  qed
qed

lemma prefix_newline_key:
  "prefix (newline # key) (drop i raw) = key_starts_line_at raw key i"
proof (cases "i < length raw")
  case True
  then have "drop i raw = raw ! i # drop (Suc i) raw"
    by (simp add: Cons_nth_drop_Suc)
  with True show ?thesis by (auto simp: key_starts_line_at_def)
next
  case False
  then show ?thesis by (simp add: key_starts_line_at_def)
qed

lemma length_js_split: "length (js_split sep s) = Suc (count_list s sep)"
  by (induction s) (auto split: list.splits)

lemma substring_from_0: "0 \<le> n \<Longrightarrow> substring s 0 n = take (nat n) s"
  by (auto simp: substring_def Let_def min_def max_def)

lemma js_split_nonempty: "js_split sep s \<noteq> []"
  using length_js_split [of sep s] by auto

lemma hd_js_split: "js_split sep s ! 0 = takeWhile (\<lambda>c. c \<noteq> sep) s"
  using js_split_nonempty by (induction s) (auto split: list.splits)

lemma count_list_pos: "x \<in> set xs \<Longrightarrow> 0 < count_list xs x"
  by (induction xs) auto

lemma js_split_line:
  "n \<le> length s \<Longrightarrow> n = 0 \<or> s ! (n - 1) = sep \<Longrightarrow>
   js_split sep s ! count_list (take n s) sep = takeWhile (\<lambda>c. c \<noteq> sep) (drop n s)"
proof (induction s arbitrary: n)
  case Nil
  then show ?case by simp
next
  case (Cons c cs)
  show ?case
  proof (cases n)
    case 0
    then show ?thesis using hd_js_split [of sep "c # cs"] by simp
  next
    case (Suc m)
    have m: "m \<le> length cs" using Cons.prems(1) Suc by simp
    show ?thesis
    proof (cases "c = sep")
      case True
      have "m = 0 \<or> cs ! (m - 1) = sep"
        using Cons.prems(2) Suc by (cases m) auto
      from Cons.IH [OF m this] True Suc show ?thesis by simp
    next
      case False
      have mpos: "m \<noteq> 0"
      proof
        assume "m = 0"
        with Cons.prems(2) Suc have "c = sep" by simp
        with False show False by simp
      qed
      then have at: "cs ! (m - 1) = sep" using Cons.prems(2) Suc by (cases m) auto
      have "cs ! (m - 1) \<in> set (take m cs)"
        using mpos m by (metis diff_less in_set_conv_nth length_take less_numeral_extra(1) min.absorb2 not_gr_zero nth_take)
      then have pos: "0 < count_list (take m cs) sep" using at count_list_pos by metis
      obtain l ls where sp: "js_split sep cs = l # ls"
        using length_js_split [of sep cs] by (cases "js_split sep cs") auto
      have "js_split sep cs ! count_list (take m cs) sep = takeWhile (\<lambda>c. c \<noteq> sep) (drop m cs)"
        using Cons.IH [OF m] at by simp
      with False Suc sp pos show ?thesis by (cases "count_list (take m cs) sep") auto
    qed
  qed
qed

lemma prefix_takeWhile:
  "prefix k xs \<Longrightarrow> \<forall>c\<in>set k. P c \<Longrightarrow> prefix k (takeWhile P xs)"
proof -
  assume "prefix k xs" and all: "\<forall>c\<in>set k. P c"
  then obtain zs where "xs = k @ zs" by (auto simp: prefix_def)
  with all have "takeWhile P xs = k @ takeWhile P zs" by (simp add: takeWhile_append2)
  then show ?thesis by simp
qed


subsection \<open>What the locator returns\<close>

lemma key_starts_line_at_bound: "key_starts_line_at raw key i \<Longrightarrow> i < length raw"
  by (simp add: key_starts_line_at_def)

lemma locator_zero_iff:
  "(getFrontmatterErrorLine raw key = 0) = (\<forall>i. \<not> key_starts_line_at raw key i)"
proof -
  have a: "(indexOf raw (newline # key) = - 1) = (\<forall>i. \<not> key_starts_line_at raw key i)"
    unfolding indexOf_absent prefix_newline_key
    using key_starts_line_at_bound [of raw key] by (meson less_imp_le_nat)
  have b: "indexOf raw (newline # key) \<noteq> - 1 \<Longrightarrow> getFrontmatterErrorLine raw key \<noteq> 0"
    by (simp add: getFrontmatterErrorLine_def Let_def length_js_split)
  have c: "indexOf raw (newline # key) = - 1 \<Longrightarrow> getFrontmatterErrorLine raw key = 0"
    by (simp add: getFrontmatterErrorLine_def)
  from a b c show ?thesis by blast
qed

lemma locator_first_match:
  assumes at: "key_starts_line_at raw key i"
    and first: "\<forall>j<i. \<not> key_starts_line_at raw key j"
  shows "getFrontmatterErrorLine raw key = int (count_list (take (Suc i) raw) newline) + 1"
proof -
  have i: "i \<le> length raw" using at by (simp add: key_starts_line_at_def)
  have "indexOf raw (newline # key) = int i"
    using indexOf_first [OF i, of "newline # key"] at first
    by (simp add: prefix_newline_key)
  then show ?thesis
    by (simp add: getFrontmatterErrorLine_def Let_def substring_from_0 length_js_split
        nat_add_distrib)
qed

lemma newline_counted:
  assumes "key_starts_line_at raw key i"
  shows "1 \<le> count_list (take (Suc i) raw) newline"
proof -
  from assms have "i < length raw" and "raw ! i = newline"
    by (simp_all add: key_starts_line_at_def)
  then have "newline \<in> set (take (Suc i) raw)"
    by (metis in_set_conv_nth length_take lessI min_less_iff_conj nth_take)
  then show ?thesis using count_list_pos [of newline "take (Suc i) raw"] by simp
qed

lemma first_line_start_exists:
  assumes "key_starts_line_at raw key i"
  shows "\<exists>k. key_starts_line_at raw key k \<and> (\<forall>j<k. \<not> key_starts_line_at raw key j)"
proof -
  let ?k = "LEAST k. key_starts_line_at raw key k"
  have "key_starts_line_at raw key ?k" using assms by (rule LeastI)
  moreover have "\<forall>j<?k. \<not> key_starts_line_at raw key j"
    using not_less_Least by blast
  ultimately show ?thesis by blast
qed

lemma line_begins_with_key:
  assumes at: "key_starts_line_at raw key i" and nonl: "newline \<notin> set key"
  shows "prefix key (js_split newline raw ! count_list (take (Suc i) raw) newline)"
proof -
  from at have i: "Suc i \<le> length raw" and nl: "raw ! (Suc i - 1) = newline"
    and pre: "prefix key (drop (Suc i) raw)"
    by (simp_all add: key_starts_line_at_def)
  have "js_split newline raw ! count_list (take (Suc i) raw) newline =
        takeWhile (\<lambda>c. c \<noteq> newline) (drop (Suc i) raw)"
    using js_split_line [OF i, of newline] nl by blast
  moreover have "prefix key (takeWhile (\<lambda>c. c \<noteq> newline) (drop (Suc i) raw))"
    using pre nonl by (intro prefix_takeWhile) auto
  ultimately show ?thesis by simp
qed

lemma locator_on_title: "getFrontmatterErrorLine spec_example_frontmatter (lit ''title'') = 2"
  by (simp add: spec_example_frontmatter_def lit_def getFrontmatterErrorLine_def newline_def
      substring_def Let_def)

lemma title_line_start: "key_starts_line_at spec_example_frontmatter (lit ''title'') 3"
  by (simp add: spec_example_frontmatter_def lit_def key_starts_line_at_def newline_def)

lemma title_not_earlier: "\<forall>j<3. \<not> key_starts_line_at spec_example_frontmatter (lit ''title'') j"
proof (intro allI impI)
  fix j :: nat assume "j < 3"
  then have "j = 0 \<or> j = 1 \<or> j = 2" by arith
  then show "\<not> key_starts_line_at spec_example_frontmatter (lit ''title'') j"
    by (auto simp: spec_example_frontmatter_def lit_def key_starts_line_at_def newline_def)
qed

text \<open>
  Claim C4. For every raw front matter and key, \<open>getFrontmatterErrorLine\<close> returns \<open>0\<close>
  exactly when the key never follows a newline in the raw text; otherwise, with \<open>i\<close> the
  first newline that the key follows, it returns one more than the number of newlines up
  to and including \<open>i\<close>, which is the 1-based number of the line the key begins: that
  line of the text (split at newlines) starts with the key. On the spec's example the
  key \<open>title\<close> is reported at line 2.
\<close>

theorem getFrontmatterErrorLine_line_of_key:
  "((getFrontmatterErrorLine raw key = 0) = (\<forall>i. \<not> key_starts_line_at raw key i))
   \<and> (key_starts_line_at raw key i \<and> (\<forall>j<i. \<not> key_starts_line_at raw key j) \<longrightarrow>
        getFrontmatterErrorLine raw key = int (count_list (take (Suc i) raw) newline) + 1
        \<and> (newline \<notin> set key \<longrightarrow>
             prefix key (js_split newline raw ! (nat (getFrontmatterErrorLine raw key) - 1))))
   \<and> getFrontmatterErrorLine spec_example_frontmatter (lit ''title'') = 2"
proof (intro conjI impI)
  show "(getFrontmatterErrorLine raw key = 0) = (\<forall>i. \<not> key_starts_line_at raw key i)"
    by (rule locator_zero_iff)
next
  assume h: "key_starts_line_at raw key i \<and> (\<forall>j<i. \<not> key_starts_line_at raw key j)"
  then show "getFrontmatterErrorLine raw key = int (count_list (take (Suc i) raw) newline) + 1"
    using locator_first_match by blast
next
  assume h: "key_starts_line_at raw key i \<and> (\<forall>j<i. \<not> key_starts_line_at raw key j)"
    and nonl: "newline \<notin> set key"
  from h have r: "getFrontmatterErrorLine raw key = int (count_list (take (Suc i) raw) newline) + 1"
    using locator_first_match by blast
  have "nat (getFrontmatterErrorLine raw key) - 1 = count_list (take (Suc i) raw) newline"
    unfolding r by simp
  then show "prefix key (js_split newline raw ! (nat (getFrontmatterErrorLine raw key) - 1))"
    using line_begins_with_key [of raw key i] h nonl by simp
next
  show "getFrontmatterErrorLine spec_example_frontmatter (lit ''title'') = 2"
    by (rule locator_on_title)
qed

theorem getFrontmatterErrorLine_line_of_key_witness:
  "key_starts_line_at spec_example_frontmatter (lit ''title'') 3
   \<and> getFrontmatterErrorLine spec_example_frontmatter (lit ''title'') = 2
   \<and> prefix (lit ''title'') (js_split newline spec_example_frontmatter ! 1)
   \<and> getFrontmatterErrorLine spec_example_frontmatter (lit ''missingKey'') = 0"
proof -
  have nonl: "newline \<notin> set (lit ''title'')" by (simp add: newline_def lit_def)
  have none: "\<forall>i. \<not> key_starts_line_at spec_example_frontmatter (lit ''missingKey'') i"
  proof
    fix i
    have "getFrontmatterErrorLine spec_example_frontmatter (lit ''missingKey'') = 0"
      by (simp add: spec_example_frontmatter_def lit_def getFrontmatterErrorLine_def newline_def)
    then show "\<not> key_starts_line_at spec_example_frontmatter (lit ''missingKey'') i"
      using locator_zero_iff by blast
  qed
  note t = getFrontmatterErrorLine_line_of_key [of spec_example_frontmatter "lit ''title''" 3]
  note m = getFrontmatterErrorLine_line_of_key [of spec_example_frontmatter "lit ''missingKey''" 0]
  from t title_line_start title_not_earlier nonl
  have "getFrontmatterErrorLine spec_example_frontmatter (lit ''title'') = 2"
    and "prefix (lit ''title'') (js_split newline spec_example_frontmatter !
           (nat (getFrontmatterErrorLine spec_example_frontmatter (lit ''title'')) - 1))"
    by blast+
  moreover from m none have "getFrontmatterErrorLine spec_example_frontmatter (lit ''missingKey'') = 0"
    by blast
  ultimately show ?thesis using title_line_start by simp
qed

text \<open>
  Claim C10. The locator never returns \<open>1\<close>: its result is \<open>0\<close> or at least \<open>2\<close>. A key
  that stands at the very start of the raw text and nowhere after a newline is reported
  as \<open>0\<close>, as the key \<open>title\<close> of the text \<open>title: 5\<newline>body: x\<close> is.
\<close>

theorem getFrontmatterErrorLine_never_one:
  "(getFrontmatterErrorLine raw key = 0 \<or> 2 \<le> getFrontmatterErrorLine raw key)
   \<and> (prefix key raw \<and> (\<forall>i. \<not> key_starts_line_at raw key i) \<longrightarrow>
        getFrontmatterErrorLine raw key = 0)
   \<and> getFrontmatterErrorLine first_line_frontmatter (lit ''title'') = 0"
proof (intro conjI impI)
  show "getFrontmatterErrorLine raw key = 0 \<or> 2 \<le> getFrontmatterErrorLine raw key"
  proof (cases "\<forall>i. \<not> key_starts_line_at raw key i")
    case True
    then show ?thesis using locator_zero_iff by blast
  next
    case False
    then obtain i where "key_starts_line_at raw key i" by blast
    then obtain k where k: "key_starts_line_at raw key k"
      and least: "\<forall>j<k. \<not> key_starts_line_at raw key j"
      using first_line_start_exists by blast
    have "getFrontmatterErrorLine raw key = int (count_list (take (Suc k) raw) newline) + 1"
      using locator_first_match [OF k least] .
    moreover have "1 \<le> count_list (take (Suc k) raw) newline"
      using newline_counted [OF k] .
    ultimately show ?thesis by simp
  qed
next
  assume "prefix key raw \<and> (\<forall>i. \<not> key_starts_line_at raw key i)"
  then show "getFrontmatterErrorLine raw key = 0" using locator_zero_iff by blast
next
  show "getFrontmatterErrorLine first_line_frontmatter (lit ''title'') = 0"
    by (simp add: first_line_frontmatter_def lit_def getFrontmatterErrorLine_def newline_def)
qed

theorem getFrontmatterErrorLine_never_one_witness:
  "prefix (lit ''title'') first_line_frontmatter
   \<and> (\<forall>i. \<not> key_starts_line_at first_line_frontmatter (lit ''title'') i)
   \<and> getFrontmatterErrorLine first_line_frontmatter (lit ''title'') = 0"
proof -
  have p: "prefix (lit ''title'') first_line_frontmatter"
    by (simp add: first_line_frontmatter_def lit_def)
  have none: "\<forall>i. \<not> key_starts_line_at first_line_frontmatter (lit ''title'') i"
  proof
    fix i
    have "getFrontmatterErrorLine first_line_frontmatter (lit ''title'') = 0"
      by (simp add: first_line_frontmatter_def lit_def getFrontmatterErrorLine_def newline_def)
    then show "\<not> key_starts_line_at first_line_frontmatter (lit ''title'') i"
      using locator_zero_iff by blast
  qed
  from getFrontmatterErrorLine_never_one [of first_line_frontmatter "lit ''title''"] p none
  show ?thesis by blast
qed



section \<open>Entry accessors\<close>

subsection \<open>The error map\<close>

lemma length_quote_json_unit: "1 \<le> length (quote_json_unit c)"
  by (simp add: quote_json_unit_def unicode_escape_def)

lemma quote_json_unit_plain: "(quote_json_unit c = [c]) = json_plain_unit c"
proof
  assume p: "json_plain_unit c"
  then have "\<not> c < 0x20" by (simp add: json_plain_unit_def)
  then have "c \<noteq> 0x08" "c \<noteq> 0x09" "c \<noteq> 0x0A" "c \<noteq> 0x0C" "c \<noteq> 0x0D" by auto
  with p show "quote_json_unit c = [c]"
    by (simp add: quote_json_unit_def json_plain_unit_def)
next
  assume q: "quote_json_unit c = [c]"
  show "json_plain_unit c"
  proof (rule ccontr)
    assume "\<not> json_plain_unit c"
    then have "length (quote_json_unit c) \<noteq> 1"
      by (auto simp: quote_json_unit_def json_plain_unit_def unicode_escape_def)
    with q show False by simp
  qed
qed

lemma length_quote_json_units: "length s \<le> length (quote_json_units s)"
proof (induction s rule: quote_json_units.induct)
  case 1
  then show ?case by simp
next
  case (2 c)
  then show ?case using length_quote_json_unit [of c] by simp
next
  case (3 c d ds)
  then show ?case using length_quote_json_unit [of c] by auto
qed

lemma quote_json_units_plain: "(quote_json_units s = s) = json_plain s"
proof (induction s rule: quote_json_units.induct)
  case 1
  then show ?case by simp
next
  case (2 c)
  then show ?case by (simp add: quote_json_unit_plain)
next
  case (3 c d ds)
  show ?case
  proof (cases "is_leading_surrogate c \<and> is_trailing_surrogate d")
    case True
    with 3 show ?thesis by simp
  next
    case False
    have "(quote_json_unit c @ quote_json_units (d # ds) = c # d # ds) =
          (quote_json_unit c = [c] \<and> quote_json_units (d # ds) = d # ds)"
    proof
      assume e: "quote_json_unit c @ quote_json_units (d # ds) = c # d # ds"
      then have "length (quote_json_unit c) + length (quote_json_units (d # ds)) =
                 Suc (length (d # ds))"
        by (metis length_append length_Cons)
      with length_quote_json_unit [of c] length_quote_json_units [of "d # ds"]
      have "length (quote_json_unit c) = 1" by linarith
      then obtain x where x: "quote_json_unit c = [x]"
        by (cases "quote_json_unit c") auto
      with e show "quote_json_unit c = [c] \<and> quote_json_units (d # ds) = d # ds" by simp
    next
      assume "quote_json_unit c = [c] \<and> quote_json_units (d # ds) = d # ds"
      then show "quote_json_unit c @ quote_json_units (d # ds) = c # d # ds" by simp
    qed
    moreover have "quote_json_units (c # d # ds) = quote_json_unit c @ quote_json_units (d # ds)"
      and "json_plain (c # d # ds) = (json_plain_unit c \<and> json_plain (d # ds))"
      using False by auto
    moreover have "(quote_json_units (d # ds) = d # ds) = json_plain (d # ds)"
      using 3 False by blast
    ultimately show ?thesis by (simp only: quote_json_unit_plain)
  qed
qed

lemma JSON_stringify_plain: "(JSON_stringify s = dquote # s @ [dquote]) = json_plain s"
  by (simp add: JSON_stringify_def quote_json_units_plain)

lemma js_split_no_sep: "sep \<notin> set x \<Longrightarrow> js_split sep x = [x]"
  by (induction x) auto

lemma js_split_append_sep:
  "sep \<notin> set x \<Longrightarrow> js_split sep (x @ sep # ys) = x # js_split sep ys"
  by (induction x) auto

lemma js_split_join:
  "xs \<noteq> [] \<Longrightarrow> \<forall>x\<in>set xs. sep \<notin> set x \<Longrightarrow> js_split sep (join [sep] xs) = xs"
proof (induction "[sep]" xs rule: join.induct)
  case 1
  then show ?case by simp
next
  case (2 x)
  then show ?case by (simp add: js_split_no_sep)
next
  case (3 x y ys)
  then show ?case by (simp add: js_split_append_sep)
qed

lemmas errorMap_eval =
  errorMap_def JSON_stringify_def flattenPath_def quote_json_unit_def unicode_escape_def
  is_leading_surrogate_def is_trailing_surrogate_def dquote_def backslash_def digit_char_def
  lit_def number_to_string.simps

lemma errorMap_title_missing:
  "errorMap title_missing_issue ctx = dquote # lit ''title'' @ dquote # lit '' is required.''"
  by (simp add: errorMap_eval title_missing_issue_def)

lemma errorMap_title_number:
  "errorMap title_number_issue ctx =
   dquote # lit ''title'' @ dquote # lit '' should be string, not number.''"
  by (simp add: errorMap_eval title_number_issue_def)

lemma errorMap_nested:
  "errorMap nested_issue ctx =
   dquote # lit ''author.links.12.url'' @ dquote # lit '' should be string, not number.''"
  by (simp add: errorMap_eval nested_issue_def)

lemma errorMap_escaped_key:
  "errorMap escaped_key_issue ctx =
   dquote # [backslash, backslash, backslash, 0x74] @ backslash # lit ''u001f'' @
   backslash # lit ''ud83d'' @ lit ''a'' @ [0xD83D, 0xDE00] @ dquote # lit '' is required.''"
  by (simp add: errorMap_eval escaped_key_issue_def)

text \<open>
  Claim C1, as the spec states it: for a wrong-type issue the message is the dot-joined
  path between two double quotes, followed by the template's words. It fails for the
  missing element \<open>0\<close> of a field named \<open>a"b\<close>: the message is
  \<open>"a\"b.0" is required.\<close>, with the inner double quote escaped, and not
  \<open>"a"b.0" is required.\<close>
\<close>

theorem errorMap_plain_quotes_counterexample:
  "code quoted_key_issue = lit ''invalid_type'' \<and> received quoted_key_issue = lit ''undefined''
   \<and> flattenPath (path quoted_key_issue) = lit ''a'' @ [dquote] @ lit ''b.0''
   \<and> errorMap quoted_key_issue \<lparr>defaultError = lit ''Required''\<rparr> =
       dquote # lit ''a'' @ [backslash, dquote] @ lit ''b.0'' @ dquote # lit '' is required.''
   \<and> errorMap quoted_key_issue \<lparr>defaultError = lit ''Required''\<rparr> \<noteq>
       dquote # flattenPath (path quoted_key_issue) @ dquote # lit '' is required.''"
  by (simp add: errorMap_eval quoted_key_issue_def)

text \<open>
  Claim C1, amended. For a wrong-type issue the message is the JSON string literal of the
  dot-joined path, followed by \<open>is required.\<close> when the received type is \<open>undefined\<close> and
  by \<open>should be <expected>, not <received>.\<close> otherwise. The JSON string literal is the
  joined path between two double quotes exactly when the joined path has no double quote,
  no backslash, no control character and no surrogate outside a pair; those are escaped.
  The joined path has the segments' strings separated by dots: split at the dots it gives
  the segments back, when there is a segment and none contains a dot. Any other code gives
  the default message. For the issues of the spec's two examples the messages are
  \<open>"title" is required.\<close> and \<open>"title" should be string, not number.\<close>; for the nested
  field it is \<open>"author.links.12.url" should be string, not number.\<close>; in the field name
  with a backslash, a tab, \<open>0x1F\<close> and a lone surrogate these are written as two
  backslashes, \<open>\t\<close>, \<open>\u001f\<close> and \<open>\ud83d\<close>, and the surrogate pair is copied.
\<close>

theorem errorMap_messages:
  "(code issue = lit ''invalid_type'' \<and> received issue = lit ''undefined'' \<longrightarrow>
      errorMap issue ctx = JSON_stringify (flattenPath (path issue)) @ lit '' is required.'')
   \<and> (code issue = lit ''invalid_type'' \<and> received issue \<noteq> lit ''undefined'' \<longrightarrow>
      errorMap issue ctx =
        JSON_stringify (flattenPath (path issue)) @ lit '' should be '' @ expected issue @
        lit '', not '' @ received issue @ lit ''.'')
   \<and> ((JSON_stringify (flattenPath (path issue)) = dquote # flattenPath (path issue) @ [dquote])
        = json_plain (flattenPath (path issue)))
   \<and> (path issue \<noteq> [] \<and> (\<forall>seg\<in>set (path issue). 0x2E \<notin> set (segment_to_string seg)) \<longrightarrow>
      js_split 0x2E (flattenPath (path issue)) = map segment_to_string (path issue))
   \<and> (code issue \<noteq> lit ''invalid_type'' \<longrightarrow> errorMap issue ctx = defaultError ctx)
   \<and> errorMap title_missing_issue ctx = dquote # lit ''title'' @ dquote # lit '' is required.''
   \<and> errorMap title_number_issue ctx =
       dquote # lit ''title'' @ dquote # lit '' should be string, not number.''
   \<and> errorMap nested_issue ctx =
       dquote # lit ''author.links.12.url'' @ dquote # lit '' should be string, not number.''
   \<and> errorMap escaped_key_issue ctx =
       dquote # [backslash, backslash, backslash, 0x74] @ backslash # lit ''u001f'' @
       backslash # lit ''ud83d'' @ lit ''a'' @ [0xD83D, 0xDE00] @ dquote # lit '' is required.''"
proof (intro conjI impI)
  assume "code issue = lit ''invalid_type'' \<and> received issue = lit ''undefined''"
  then show "errorMap issue ctx =
      JSON_stringify (flattenPath (path issue)) @ lit '' is required.''"
    by (simp add: errorMap_def)
next
  assume "code issue = lit ''invalid_type'' \<and> received issue \<noteq> lit ''undefined''"
  then show "errorMap issue ctx =
      JSON_stringify (flattenPath (path issue)) @ lit '' should be '' @ expected issue @
      lit '', not '' @ received issue @ lit ''.''"
    by (simp add: errorMap_def)
next
  show "(JSON_stringify (flattenPath (path issue)) = dquote # flattenPath (path issue) @ [dquote])
        = json_plain (flattenPath (path issue))"
    by (rule JSON_stringify_plain)
next
  assume a: "path issue \<noteq> [] \<and> (\<forall>seg\<in>set (path issue). 0x2E \<notin> set (segment_to_string seg))"
  have dot: "lit ''.'' = [0x2E]" by (simp add: lit_def)
  from a have "map segment_to_string (path issue) \<noteq> []"
    and "\<forall>x\<in>set (map segment_to_string (path issue)). 0x2E \<notin> set x"
    by simp_all
  then show "js_split 0x2E (flattenPath (path issue)) = map segment_to_string (path issue)"
    unfolding flattenPath_def dot by (rule js_split_join)
next
  assume "code issue \<noteq> lit ''invalid_type''"
  then show "errorMap issue ctx = defaultError ctx" by (simp add: errorMap_def)
next
  show "errorMap title_missing_issue ctx =
      dquote # lit ''title'' @ dquote # lit '' is required.''"
    by (rule errorMap_title_missing)
next
  show "errorMap title_number_issue ctx =
      dquote # lit ''title'' @ dquote # lit '' should be string, not number.''"
    by (rule errorMap_title_number)
next
  show "errorMap nested_issue ctx =
      dquote # lit ''author.links.12.url'' @ dquote # lit '' should be string, not number.''"
    by (rule errorMap_nested)
next
  show "errorMap escaped_key_issue ctx =
      dquote # [backslash, backslash, backslash, 0x74] @ backslash # lit ''u001f'' @
      backslash # lit ''ud83d'' @ lit ''a'' @ [0xD83D, 0xDE00] @ dquote # lit '' is required.''"
    by (rule errorMap_escaped_key)
qed

theorem errorMap_messages_witness:
  "errorMap title_missing_issue \<lparr>defaultError = lit ''Required''\<rparr> =
     JSON_stringify (lit ''title'') @ lit '' is required.''
   \<and> errorMap nested_issue \<lparr>defaultError = lit ''Expected string, received number''\<rparr> =
     JSON_stringify (lit ''author.links.12.url'') @ lit '' should be string, not number.''
   \<and> JSON_stringify (lit ''author.links.12.url'') =
     dquote # lit ''author.links.12.url'' @ [dquote]
   \<and> js_split 0x2E (lit ''author.links.12.url'') =
     [lit ''author'', lit ''links'', lit ''12'', lit ''url'']
   \<and> JSON_stringify (flattenPath (path escaped_key_issue)) \<noteq>
     dquote # flattenPath (path escaped_key_issue) @ [dquote]
   \<and> errorMap too_small_issue \<lparr>defaultError = lit ''Too short''\<rparr> = lit ''Too short''"
proof -
  have pt: "flattenPath (path title_missing_issue) = lit ''title''"
    by (simp add: flattenPath_def title_missing_issue_def)
  have pn: "flattenPath (path nested_issue) = lit ''author.links.12.url''"
    by (simp add: flattenPath_def nested_issue_def number_to_string.simps digit_char_def
        lit_def)
  have segs: "map segment_to_string (path nested_issue) =
      [lit ''author'', lit ''links'', lit ''12'', lit ''url'']"
    by (simp add: nested_issue_def number_to_string.simps digit_char_def lit_def)
  have nodot: "path nested_issue \<noteq> [] \<and>
      (\<forall>seg\<in>set (path nested_issue). 0x2E \<notin> set (segment_to_string seg))"
    by (simp add: nested_issue_def number_to_string.simps digit_char_def lit_def)
  have plain: "json_plain (flattenPath (path nested_issue))"
    unfolding pn
    by (simp add: lit_def json_plain_unit_def is_leading_surrogate_def
        is_trailing_surrogate_def dquote_def backslash_def)
  have not_plain: "\<not> json_plain (flattenPath (path escaped_key_issue))"
    by (simp add: flattenPath_def escaped_key_issue_def json_plain_unit_def
        is_leading_surrogate_def is_trailing_surrogate_def dquote_def backslash_def)
  have a: "code title_missing_issue = lit ''invalid_type'' \<and>
      received title_missing_issue = lit ''undefined''"
    by (simp add: title_missing_issue_def)
  have b: "code nested_issue = lit ''invalid_type'' \<and> received nested_issue \<noteq> lit ''undefined''"
    by (simp add: nested_issue_def lit_def)
  have c: "code too_small_issue \<noteq> lit ''invalid_type''"
    by (simp add: too_small_issue_def lit_def)
  have e: "expected nested_issue = lit ''string''" "received nested_issue = lit ''number''"
    by (simp_all add: nested_issue_def)
  from errorMap_messages [of title_missing_issue "\<lparr>defaultError = lit ''Required''\<rparr>"] a
  have 1: "errorMap title_missing_issue \<lparr>defaultError = lit ''Required''\<rparr> =
       JSON_stringify (lit ''title'') @ lit '' is required.''"
    unfolding pt by blast
  note n = errorMap_messages [of nested_issue
      "\<lparr>defaultError = lit ''Expected string, received number''\<rparr>", unfolded pn segs e]
  from n b [unfolded e]
  have 2: "errorMap nested_issue \<lparr>defaultError = lit ''Expected string, received number''\<rparr> =
       JSON_stringify (lit ''author.links.12.url'') @ lit '' should be '' @ lit ''string'' @
        lit '', not '' @ lit ''number'' @ lit ''.''"
    by blast
  have two: "errorMap nested_issue \<lparr>defaultError = lit ''Expected string, received number''\<rparr> =
       JSON_stringify (lit ''author.links.12.url'') @ lit '' should be string, not number.''"
    unfolding 2 by (simp add: lit_def)
  from n plain [unfolded pn]
  have 3: "JSON_stringify (lit ''author.links.12.url'') =
       dquote # lit ''author.links.12.url'' @ [dquote]"
    by blast
  from n nodot
  have 4: "js_split 0x2E (lit ''author.links.12.url'') =
       [lit ''author'', lit ''links'', lit ''12'', lit ''url'']"
    by blast
  from errorMap_messages [of escaped_key_issue "\<lparr>defaultError = []\<rparr>"] not_plain
  have 5: "JSON_stringify (flattenPath (path escaped_key_issue)) \<noteq>
       dquote # flattenPath (path escaped_key_issue) @ [dquote]"
    by blast
  from errorMap_messages [of too_small_issue "\<lparr>defaultError = lit ''Too short''\<rparr>"] c
  have 6: "errorMap too_small_issue \<lparr>defaultError = lit ''Too short''\<rparr> = lit ''Too short''"
    by simp
  from 1 two 3 4 5 6 show ?thesis by blast
qed

subsection \<open>\<open>getEntryData\<close>\<close>

lemma example_validator_fails:
  "example_validator () (entry_data example_entry) errorMap =
   Parse_failure \<lparr>errors =
     [title_number_issue\<lparr>issue_message :=
        dquote # lit ''title'' @ dquote # lit '' should be string, not number.''\<rparr>]\<rparr>"
  by (simp add: example_validator_def errorMap_title_number)

text \<open>
  Claim C2. When the collection config has a schema and its validation of the entry's
  data fails, \<open>getEntryData\<close> throws an error whose message is the message function's
  result for the collection name, the entry id and the validation error (which holds the
  formatted messages), and whose location has the entry's file path as file, the line the
  locator finds in the entry's raw data for the first segment of the first issue's path
  (a property name is taken as it is), and column \<open>0\<close>.
\<close>

theorem getEntryData_validation_error:
  "schema collectionConfig = Schema_shape shape \<and>
   safeParseAsync shape (entry_data entry) errorMap = Parse_failure parsed_error \<and>
   errors parsed_error = first_issue # more_issues \<longrightarrow>
     getEntryData safeParseAsync errorMessage entry collectionConfig =
       Inl (AstroError
         \<lparr>message = errorMessage (entry_collection entry) (entry_id entry) parsed_error,
          location =
            \<lparr>loc_file = internal_filePath (entry_internal entry),
             loc_line = getFrontmatterErrorLine (internal_rawData (entry_internal entry))
                          (first_segment_string (path first_issue)),
             loc_column = 0\<rparr>\<rparr>)
     \<and> (\<forall>k rest. path first_issue = Key k # rest \<longrightarrow>
            first_segment_string (path first_issue) = k)"
  by (simp add: getEntryData_def)

theorem getEntryData_validation_error_witness:
  "getEntryData example_validator example_errorMessage example_entry config_with_schema =
     Inl (AstroError
       \<lparr>message = lit ''blog / post.md'' @ [newline] @
                    dquote # lit ''title'' @ dquote # lit '' should be string, not number.'',
        location = \<lparr>loc_file = lit ''/site/blog/post.md'', loc_line = 2, loc_column = 0\<rparr>\<rparr>)"
proof -
  let ?issue = "title_number_issue\<lparr>issue_message :=
        dquote # lit ''title'' @ dquote # lit '' should be string, not number.''\<rparr>"
  have s: "schema config_with_schema = Schema_shape ()"
    by (simp add: config_with_schema_def)
  have e: "errors \<lparr>errors = [?issue]\<rparr> = ?issue # []" by simp
  have k: "first_segment_string (path ?issue) = lit ''title''"
    by (simp add: title_number_issue_def)
  have m: "example_errorMessage (entry_collection example_entry) (entry_id example_entry)
             \<lparr>errors = [?issue]\<rparr> =
           lit ''blog / post.md'' @ [newline] @
             dquote # lit ''title'' @ dquote # lit '' should be string, not number.''"
    by (simp add: example_errorMessage_def example_entry_def lit_def)
  have f: "internal_filePath (entry_internal example_entry) = lit ''/site/blog/post.md''"
    and r: "internal_rawData (entry_internal example_entry) = spec_example_frontmatter"
    by (simp_all add: example_entry_def)
  from getEntryData_validation_error [of config_with_schema "()" example_validator
      example_entry "\<lparr>errors = [?issue]\<rparr>" ?issue "[]" example_errorMessage]
    s example_validator_fails e
  have "getEntryData example_validator example_errorMessage example_entry config_with_schema =
       Inl (AstroError
         \<lparr>message = example_errorMessage (entry_collection example_entry)
                      (entry_id example_entry) \<lparr>errors = [?issue]\<rparr>,
          location =
            \<lparr>loc_file = internal_filePath (entry_internal example_entry),
             loc_line = getFrontmatterErrorLine (internal_rawData (entry_internal example_entry))
                          (first_segment_string (path ?issue)),
             loc_column = 0\<rparr>\<rparr>)"
    by blast
  then show ?thesis unfolding k m f r locator_on_title .
qed

text \<open>
  Claim C7. When the collection config's schema is undefined, \<open>getEntryData\<close> returns the
  entry's data as it is: the validator is not called and nothing is thrown.
\<close>

theorem getEntryData_no_schema:
  "schema collectionConfig = Schema_undefined \<Longrightarrow>
   getEntryData safeParseAsync errorMessage entry collectionConfig = Inr (entry_data entry)"
  by (simp add: getEntryData_def)

theorem getEntryData_no_schema_witness:
  "schema config_without_schema = Schema_undefined
   \<and> getEntryData example_validator example_errorMessage example_entry config_without_schema =
       Inr ''{title: 5}''"
proof -
  have s: "schema config_without_schema = Schema_undefined"
    by (simp add: config_without_schema_def)
  from getEntryData_no_schema [OF s, of example_validator example_errorMessage example_entry] s
  show ?thesis by (simp add: example_entry_def)
qed

subsection \<open>\<open>getEntrySlug\<close>\<close>

text \<open>
  Claim C8. Without a slug function \<open>getEntrySlug\<close> resolves to the entry's own slug.
  With one, the function is called with the entry's id, data, slug (as \<open>defaultSlug\<close>),
  collection and body, and \<open>getEntrySlug\<close> settles as the awaited result does: to the
  string the function returns, to the string its promise is fulfilled with, or to the
  promise's rejection; what the function throws is thrown on.
\<close>

theorem getEntrySlug_result:
  "(slug collectionConfig = None \<longrightarrow>
      getEntrySlug entry collectionConfig = Inr (Some (entry_slug entry)))
   \<and> (slug collectionConfig = Some f \<and>
       f \<lparr>arg_id = entry_id entry, arg_data = entry_data entry, defaultSlug = entry_slug entry,
          arg_collection = entry_collection entry, arg_body = entry_body entry\<rparr> = r \<longrightarrow>
        (r = Call_returned (Text s) \<longrightarrow> getEntrySlug entry collectionConfig = Inr (Some s))
        \<and> (r = Call_returned (Promise (Inr s)) \<longrightarrow>
             getEntrySlug entry collectionConfig = Inr (Some s))
        \<and> (r = Call_returned (Promise (Inl x)) \<longrightarrow> getEntrySlug entry collectionConfig = Inl x)
        \<and> (r = Call_threw x \<longrightarrow> getEntrySlug entry collectionConfig = Inl x))"
  by (auto simp: getEntrySlug_def slug_args_of_def nullish_coalesce_def)

theorem getEntrySlug_result_witness:
  "getEntrySlug example_entry config_without_schema = Inr (Some (lit ''post''))
   \<and> getEntrySlug example_entry config_with_async_slug = Inr (Some (lit ''blog/post''))"
proof -
  have n: "slug config_without_schema = None" by (simp add: config_without_schema_def)
  obtain f where f: "slug config_with_async_slug = Some f"
    and fv: "\<And>a. f a = Call_returned (Promise (Inr (arg_collection a @ lit ''/'' @ defaultSlug a)))"
    by (simp add: config_with_async_slug_def)
  from getEntrySlug_result [of config_without_schema example_entry] n
  have 1: "getEntrySlug example_entry config_without_schema = Inr (Some (lit ''post''))"
    by (simp add: example_entry_def)
  from getEntrySlug_result [of config_with_async_slug example_entry f _ "lit ''blog/post''"] f
  have 2: "getEntrySlug example_entry config_with_async_slug = Inr (Some (lit ''blog/post''))"
    by (simp add: fv example_entry_def lit_def)
  from 1 2 show ?thesis by simp
qed



section \<open>Front-matter syntax errors\<close>

text \<open>
  What the catch block does with a \<open>YAMLException\<close> that carries a mark: the exception is
  thrown on with its \<open>id\<close> set to the file path argument, its message set to the parser's
  reason, and its location set to the file path, the mark's line plus one, and the mark's
  column.
\<close>

lemma parseFrontmatter_marked_exception:
  "matter fileContents = Inl e \<and> exn_name e = lit ''YAMLException'' \<and> exn_mark e = Some mark \<longrightarrow>
     parseFrontmatter matter fileContents filePath =
       Inl (Thrown (e\<lparr>exn_id := Some filePath,
                      exn_loc := Some \<lparr>exn_loc_file = Some filePath,
                                       exn_loc_line = mark_line mark + 1,
                                       exn_loc_column = mark_column mark\<rparr>,
                      exn_message := exn_reason e\<rparr>))"
  by (simp add: parseFrontmatter_def)

lemma parseFrontmatter_bad_indentation:
  "parseFrontmatter example_matter bad_indentation_text (lit ''/site/blog/post.md'') =
     Inl (Thrown
       \<lparr>exn_name = lit ''YAMLException'',
        exn_message = lit ''bad indentation of a mapping entry'',
        exn_reason = lit ''bad indentation of a mapping entry'',
        exn_mark = Some \<lparr>mark_line = 3, mark_column = 1\<rparr>,
        exn_id = Some (lit ''/site/blog/post.md''),
        exn_loc = Some \<lparr>exn_loc_file = Some (lit ''/site/blog/post.md''), exn_loc_line = 4,
                         exn_loc_column = 1\<rparr>\<rparr>)"
proof -
  have m: "example_matter bad_indentation_text = Inl bad_indentation"
    by (simp add: example_matter_def)
  have n: "exn_name bad_indentation = lit ''YAMLException''"
    and k: "exn_mark bad_indentation = Some \<lparr>mark_line = 3, mark_column = 1\<rparr>"
    by (simp_all add: bad_indentation_def)
  from parseFrontmatter_marked_exception [of example_matter bad_indentation_text
      bad_indentation "\<lparr>mark_line = 3, mark_column = 1\<rparr>" "lit ''/site/blog/post.md''"] m n k
  show ?thesis by (simp add: bad_indentation_def)
qed

text \<open>
  Claim C5. For every file text whose YAML block is invalid, \<open>parseFrontmatter\<close> is to
  throw the parser's exception with its \<open>id\<close> set to the file path argument, its message
  set to the parser's reason and its location taken from the parser's mark. The code
  does not do so for a \<open>YAMLException\<close> without a mark: for the block that holds two
  documents, the catch block sets the \<open>id\<close>, then reads \<open>e.mark.line\<close> of the missing
  mark, and a \<open>TypeError\<close> is thrown in place of the parser's exception.
\<close>

theorem parseFrontmatter_markless_exception:
  "example_matter two_documents_text = Inl single_document_expected
   \<and> exn_name single_document_expected = lit ''YAMLException''
   \<and> exn_mark single_document_expected = None
   \<and> parseFrontmatter example_matter two_documents_text (lit ''/site/blog/post.md'') =
       Inl Thrown_TypeError"
  by (simp add: parseFrontmatter_def example_matter_def single_document_expected_def
      two_documents_text_def bad_indentation_text_def lit_def)



section \<open>Loading the content config\<close>

lemma example_config_found:
  "config (getContentPaths string_urls glob_found (srcDir example_settings)
     (root example_settings)) = Some (lit ''file:///site/content.config.ts'')"
  by (simp add: getContentPaths_def string_urls_def glob_found_def example_settings_def lit_def)

lemma example_config_missing:
  "config (getContentPaths string_urls glob_nothing (srcDir example_settings)
     (root example_settings)) = None"
  by (simp add: getContentPaths_def glob_nothing_def)

lemmas loader_eval =
  loadContentConfig_def catch_block_def close_server_def no_server_def Let_def

lemmas example_eval =
  loader_eval getContentPaths_def string_urls_def glob_found_def glob_nothing_def
  example_settings_def example_safeParse_def lit_def

text \<open>
  Claim C3, as the spec states it: \<open>loadContentConfig\<close> never throws, and returns the
  validated config whenever a config file is found, its module executes and its shape is
  valid. It fails in both parts: when the server cannot be created the function throws,
  and when the first \<open>close\<close> rejects after a successful module execution the function
  returns a \<open>NotFoundError\<close> although the module is valid.
\<close>

theorem loadContentConfig_never_throws_counterexample:
  "fst (loadContentConfig string_urls glob_found uncreatable_server example_safeParse
          example_settings) = Inl ''failed to resolve config''
   \<and> ssrLoadModule close_rejects_once_server (lit ''/site/content.config.ts'') = Inr ''ok''
   \<and> example_safeParse ''ok'' = Inr ''collections''
   \<and> fst (loadContentConfig string_urls glob_found close_rejects_once_server example_safeParse
          example_settings) = Inr NotFoundError"
  by (simp add: example_eval uncreatable_server_def close_rejects_once_server_def)

text \<open>
  Claim C3, amended. \<open>loadContentConfig\<close> returns a \<open>NotFoundError\<close> when path resolution
  finds no config file. When a config file is found, the server is created and \<open>close\<close>
  does not reject, it returns a \<open>NotFoundError\<close> if module execution throws, a
  \<open>ZodParseError\<close> with the validator's message if the module's shape is invalid, and the
  validated config otherwise. When the server cannot be created, the exception is thrown
  on to the caller.
\<close>

theorem loadContentConfig_results:
  "(config (getContentPaths urls glob_sync (srcDir settings) (root settings)) = None \<longrightarrow>
      fst (loadContentConfig urls glob_sync server safeParse settings) = Inr NotFoundError)
   \<and> (config (getContentPaths urls glob_sync (srcDir settings) (root settings)) = Some configURL \<and>
       createServer server (fileURLToPath urls (root settings)) = None \<and>
       close server 0 = None \<longrightarrow>
        (\<forall>x. ssrLoadModule server (pathname urls configURL) = Inl x \<longrightarrow>
           fst (loadContentConfig urls glob_sync server safeParse settings) = Inr NotFoundError)
        \<and> (\<forall>m msg. ssrLoadModule server (pathname urls configURL) = Inr m \<and>
                    safeParse m = Inl msg \<longrightarrow>
             fst (loadContentConfig urls glob_sync server safeParse settings) =
               Inr (ZodParseError msg))
        \<and> (\<forall>m c. ssrLoadModule server (pathname urls configURL) = Inr m \<and> safeParse m = Inr c \<longrightarrow>
             fst (loadContentConfig urls glob_sync server safeParse settings) =
               Inr (Content_config c)))
   \<and> (config (getContentPaths urls glob_sync (srcDir settings) (root settings)) = Some configURL \<and>
       createServer server (fileURLToPath urls (root settings)) = Some x \<longrightarrow>
        fst (loadContentConfig urls glob_sync server safeParse settings) = Inl x)"
  by (simp add: loader_eval)

theorem loadContentConfig_results_witness:
  "fst (loadContentConfig string_urls glob_nothing working_server example_safeParse
          example_settings) = Inr NotFoundError
   \<and> fst (loadContentConfig string_urls glob_found throwing_module_server example_safeParse
          example_settings) = Inr NotFoundError
   \<and> fst (loadContentConfig string_urls glob_found working_server (\<lambda>m. Inl (lit ''Required''))
          example_settings) = (Inr (ZodParseError (lit ''Required'')) :: string + string load_result)
   \<and> fst (loadContentConfig string_urls glob_found working_server example_safeParse
          example_settings) = Inr (Content_config ''collections'')
   \<and> fst (loadContentConfig string_urls glob_found uncreatable_server example_safeParse
          example_settings) = Inl ''failed to resolve config''"
proof -
  note found = example_config_found
  have p: "pathname string_urls (lit ''file:///site/content.config.ts'') =
      lit ''/site/content.config.ts''"
    by (simp add: string_urls_def lit_def)
  have 1: "fst (loadContentConfig string_urls glob_nothing working_server example_safeParse
          example_settings) = Inr NotFoundError"
    using loadContentConfig_results [of string_urls glob_nothing example_settings working_server
        example_safeParse] example_config_missing by blast
  have 2: "fst (loadContentConfig string_urls glob_found throwing_module_server
          example_safeParse example_settings) = Inr NotFoundError"
    using loadContentConfig_results [of string_urls glob_found example_settings
        throwing_module_server example_safeParse "lit ''file:///site/content.config.ts''"] found
    by (simp add: throwing_module_server_def)
  have 3: "fst (loadContentConfig string_urls glob_found working_server (\<lambda>m. Inl (lit ''Required''))
          example_settings) = (Inr (ZodParseError (lit ''Required'')) :: string + string load_result)"
    using loadContentConfig_results [of string_urls glob_found example_settings
        working_server "\<lambda>m. Inl (lit ''Required'')" "lit ''file:///site/content.config.ts''"] found
    by (simp add: working_server_def)
  have 4: "fst (loadContentConfig string_urls glob_found working_server example_safeParse
          example_settings) = Inr (Content_config ''collections'')"
    using loadContentConfig_results [of string_urls glob_found example_settings
        working_server example_safeParse "lit ''file:///site/content.config.ts''"] found
    by (simp add: working_server_def example_safeParse_def)
  have 5: "fst (loadContentConfig string_urls glob_found uncreatable_server example_safeParse
          example_settings) = Inl ''failed to resolve config''"
    using loadContentConfig_results [of string_urls glob_found example_settings
        uncreatable_server example_safeParse "lit ''file:///site/content.config.ts''"
        "''failed to resolve config''"] found
    by (simp add: uncreatable_server_def)
  from 1 2 3 4 5 show ?thesis by blast
qed

text \<open>
  Claim C9, as the spec states it: on every execution path that creates the
  module-execution server, the server is closed before \<open>loadContentConfig\<close> ends. It
  fails when \<open>close\<close> rejects in the catch block: with a server whose module execution
  throws and whose \<open>close\<close> rejects, the function has created the server, has called
  \<open>close\<close> once, throws the rejection, and leaves the server open.
\<close>

theorem loadContentConfig_leaves_server_open_counterexample:
  "loadContentConfig string_urls glob_found close_always_rejects_server example_safeParse
     example_settings =
   (Inl ''close failed'', \<lparr>server_created = True, server_open = True, close_calls = 1\<rparr>)"
  by (simp add: example_eval close_always_rejects_server_def)

text \<open>
  Claim C9, amended. Whenever \<open>loadContentConfig\<close> has created the module-execution
  server, \<open>close\<close> has been called on it before the function ends, whether module
  execution succeeded or threw. The server is closed at the end whenever the function
  returns a value, and whenever the first call of \<open>close\<close> does not reject. It is left
  open only when the last call of \<open>close\<close> rejects, and then the function throws that
  rejection.
\<close>

theorem loadContentConfig_closes_server:
  "(server_created (snd (loadContentConfig urls glob_sync server safeParse settings)) \<longrightarrow>
      1 \<le> close_calls (snd (loadContentConfig urls glob_sync server safeParse settings)))
   \<and> ((\<exists>v. fst (loadContentConfig urls glob_sync server safeParse settings) = Inr v) \<longrightarrow>
      \<not> server_open (snd (loadContentConfig urls glob_sync server safeParse settings)))
   \<and> (close server 0 = None \<longrightarrow>
      \<not> server_open (snd (loadContentConfig urls glob_sync server safeParse settings)))
   \<and> (server_open (snd (loadContentConfig urls glob_sync server safeParse settings)) \<longrightarrow>
      (\<exists>x. close server
             (close_calls (snd (loadContentConfig urls glob_sync server safeParse settings)) - 1) =
             Some x
           \<and> fst (loadContentConfig urls glob_sync server safeParse settings) = Inl x))"
  by (auto simp: loader_eval split: option.splits sum.splits)

theorem loadContentConfig_closes_server_witness:
  "snd (loadContentConfig string_urls glob_found working_server example_safeParse
          example_settings) =
     \<lparr>server_created = True, server_open = False, close_calls = 1\<rparr>
   \<and> snd (loadContentConfig string_urls glob_found throwing_module_server example_safeParse
          example_settings) =
     \<lparr>server_created = True, server_open = False, close_calls = 1\<rparr>
   \<and> snd (loadContentConfig string_urls glob_found close_rejects_once_server example_safeParse
          example_settings) =
     \<lparr>server_created = True, server_open = False, close_calls = 2\<rparr>
   \<and> server_open (snd (loadContentConfig string_urls glob_found close_always_rejects_server
          example_safeParse example_settings))
   \<and> fst (loadContentConfig string_urls glob_found close_always_rejects_server
          example_safeParse example_settings) = Inl ''close failed''"
proof -
  let ?a = "loadContentConfig string_urls glob_found working_server example_safeParse
      example_settings"
  let ?b = "loadContentConfig string_urls glob_found throwing_module_server example_safeParse
      example_settings"
  let ?c = "loadContentConfig string_urls glob_found close_rejects_once_server
      example_safeParse example_settings"
  let ?d = "loadContentConfig string_urls glob_found close_always_rejects_server
      example_safeParse example_settings"
  have rc: "fst ?c = Inr NotFoundError"
    by (simp add: example_eval close_rejects_once_server_def)
  have ca: "server_created (snd ?a) \<and> close_calls (snd ?a) = 1"
    by (simp add: example_eval working_server_def)
  have cb: "server_created (snd ?b) \<and> close_calls (snd ?b) = 1"
    by (simp add: example_eval throwing_module_server_def)
  have cc: "server_created (snd ?c) \<and> close_calls (snd ?c) = 2"
    by (simp add: example_eval close_rejects_once_server_def)
  have od: "server_open (snd ?d)" and nd: "close_calls (snd ?d) = 1"
    by (simp_all add: example_eval close_always_rejects_server_def)
  have k: "\<And>n. close close_always_rejects_server n = Some ''close failed''"
    by (simp add: close_always_rejects_server_def)
  have oa: "\<not> server_open (snd ?a)"
    using loadContentConfig_closes_server [of string_urls glob_found working_server
        example_safeParse example_settings]
    by (simp add: working_server_def)
  have ob: "\<not> server_open (snd ?b)"
    using loadContentConfig_closes_server [of string_urls glob_found throwing_module_server
        example_safeParse example_settings]
    by (simp add: throwing_module_server_def)
  have oc: "\<not> server_open (snd ?c)"
    using loadContentConfig_closes_server [of string_urls glob_found close_rejects_once_server
        example_safeParse example_settings] rc by blast
  have fd: "fst ?d = Inl ''close failed''"
    using loadContentConfig_closes_server [of string_urls glob_found
        close_always_rejects_server example_safeParse example_settings] od
    by (auto simp: k)
  have eq: "\<And>st n. server_created st \<and> close_calls st = n \<Longrightarrow> \<not> server_open st \<Longrightarrow>
      st = \<lparr>server_created = True, server_open = False, close_calls = n\<rparr>"
    by simp
  from eq [OF ca oa] eq [OF cb ob] eq [OF cc oc] od fd show ?thesis by simp
qed



section \<open>The config observable\<close>

subsection \<open>The \<open>Set\<close> of subscribers and one run of \<open>forEach\<close>\<close>

lemma live_append: "live (xs @ ys) = live xs @ live ys"
  by (induction xs rule: live.induct) simp_all

lemma set_live: "set (live es) = {fn. Some fn \<in> set es}"
  by (induction es rule: live.induct) auto




lemma set_delete_delete_all: "set_delete fn es = delete_all {fn} es"
  by (induction es) (auto simp: delete_all_def set_delete_def split: option.splits)



lemma live_delete_all: "live (delete_all T es) = filter (\<lambda>fn. fn \<notin> T) (live es)"
proof (induction es)
  case Nil
  then show ?case by (simp add: delete_all_def)
next
  case (Cons e es)
  then show ?case by (cases e) (auto simp: delete_all_def)
qed


















lemma distinct_registered_subscribe:
  "distinct (registered st) \<Longrightarrow> distinct (registered (subscribe fn st))"
  by (simp add: registered_def subscribe_def set_add_def live_append set_live)

lemma distinct_registered_unsubscribe:
  "distinct (registered st) \<Longrightarrow> distinct (registered (unsubscribe fn st))"
  by (simp add: registered_def unsubscribe_def set_delete_delete_all live_delete_all)

subsection \<open>Examples\<close>









subsection \<open>What \<open>set\<close> notifies\<close>





end
